theory Spec2Isabelle
  imports Main
begin

section \<open>JavaScript values and the errors the code can raise\<close>

text \<open>
  The values that occur in the modelled code: \<open>undefined\<close>, \<open>null\<close>, booleans, strings,
  the \<open>File\<close> entries a \<open>FormData\<close> may hold, the built-in functions found on
  \<open>Object.prototype\<close> and \<open>Object.prototype\<close> itself.
\<close>

datatype jsval =
    JUndefined
  | JNull
  | JBool bool
  | JString string
  | JFile string
  | JFunction string
  | JObjectPrototype

text \<open>
  A thrown exception is a value; \<open>Error\<close> is the one the source throws itself,
  \<open>TypeError\<close> the one the runtime throws on a property read of \<open>undefined\<close>.
  The result of a call is \<open>Inl\<close> of the exception or \<open>Inr\<close> of the value; for an
  \<open>async\<close> function this is the settled promise (rejected or fulfilled).
\<close>

datatype error = Error string | TypeError string

text \<open>\<open>ToBoolean\<close>, used by \<open>Boolean(x)\<close>, \<open>!x\<close> and \<open>if (x)\<close>.\<close>

fun ToBoolean :: "jsval \<Rightarrow> bool" where
  "ToBoolean JUndefined = False"
| "ToBoolean JNull = False"
| "ToBoolean (JBool b) = b"
| "ToBoolean (JString s) = (s \<noteq> [])"
| "ToBoolean (JFile n) = True"
| "ToBoolean (JFunction n) = True"
| "ToBoolean JObjectPrototype = True"

text \<open>\<open>ToPropertyKey\<close>, applied to \<open>k\<close> by every computed member access \<open>o[k]\<close>.\<close>

fun ToPropertyKey :: "jsval \<Rightarrow> string" where
  "ToPropertyKey JUndefined = ''undefined''"
| "ToPropertyKey JNull = ''null''"
| "ToPropertyKey (JBool b) = (if b then ''true'' else ''false'')"
| "ToPropertyKey (JString s) = s"
| "ToPropertyKey (JFile n) = ''[object File]''"
| "ToPropertyKey (JFunction n) = ''function '' @ n @ ''() { [native code] }''"
| "ToPropertyKey JObjectPrototype = ''[object Object]''"

text \<open>
  The remainder operator \<open>a % b\<close> on integers: the result takes the sign of the
  dividend. (The only divisor in the source is the length of a five-element array
  literal.)
\<close>

definition js_rem :: "int \<Rightarrow> int \<Rightarrow> int" where
  "js_rem a b = sgn a * (\<bar>a\<bar> mod \<bar>b\<bar>)"

text \<open>\<open>Array.prototype.findIndex\<close>: the index of the first match, \<open>-1\<close> when none.\<close>

fun findIndex_from :: "('a \<Rightarrow> bool) \<Rightarrow> 'a list \<Rightarrow> int \<Rightarrow> int" where
  "findIndex_from p [] i = - 1"
| "findIndex_from p (x # xs) i = (if p x then i else findIndex_from p xs (i + 1))"

definition findIndex :: "('a \<Rightarrow> bool) \<Rightarrow> 'a list \<Rightarrow> int" where
  "findIndex p xs = findIndex_from p xs 0"

text \<open>An array read \<open>xs[i]\<close>: \<open>undefined\<close> (here \<open>None\<close>) outside the array.\<close>

definition js_index :: "'a list \<Rightarrow> int \<Rightarrow> 'a option" where
  "js_index xs i = (if 0 \<le> i \<and> i < int (length xs) then Some (xs ! nat i) else None)"


section \<open>page.js: the server-determined initial state\<close>

text \<open>
  The state held by \<open>UserProvider\<close>, initialised from the props the page passes.
\<close>

record clientState =
  isLoggedIn :: bool
  userLocation :: string
  currencyCode :: string

definition AUTH_TOKEN :: jsval where
  "AUTH_TOKEN = JBool True"

definition GEO_COUNTRY_CODE :: string where
  "GEO_COUNTRY_CODE = ''CA''"

text \<open>
  The business logic of \<open>GlobalConfigurationPage\<close>, with the two simulated request
  values as parameters: the three constants it computes are the props of
  \<open>UserProvider\<close>.
\<close>

definition GlobalConfigurationPage :: "jsval \<Rightarrow> string \<Rightarrow> clientState" where
  "GlobalConfigurationPage auth_token geo_country_code =
     (let currencyCode = (if geo_country_code = ''CA'' then ''CAD'' else ''USD'');
          isLoggedIn = ToBoolean auth_token;
          userLocation = geo_country_code
      in \<lparr>isLoggedIn = isLoggedIn, userLocation = userLocation, currencyCode = currencyCode\<rparr>)"

text \<open>
  The reference definition of the derivation, in the words of the specification:
  isLoggedIn is authToken, currencyCode is CAD for the geo code CA and USD otherwise,
  userLocation is the geo code unchanged.
\<close>

definition deriveConfig_spec :: "bool \<Rightarrow> string \<Rightarrow> clientState" where
  "deriveConfig_spec authToken geoCountryCode =
     \<lparr>isLoggedIn = authToken,
      userLocation = geoCountryCode,
      currencyCode = (if geoCountryCode = ''CA'' then ''CAD'' else ''USD'')\<rparr>"


section \<open>GlobalConfigDashboard.jsx: the client state container\<close>

record locationEntry =
  location :: string
  currency :: string

definition locations :: "locationEntry list" where
  "locations =
     [\<lparr>location = ''US'', currency = ''USD''\<rparr>,
      \<lparr>location = ''CA'', currency = ''CAD''\<rparr>,
      \<lparr>location = ''EU'', currency = ''EUR''\<rparr>,
      \<lparr>location = ''UK'', currency = ''GBP''\<rparr>,
      \<lparr>location = ''JP'', currency = ''JPY''\<rparr>]"

text \<open>
  The updater that \<open>toggleLocation\<close> hands to \<open>setState\<close>. Reading \<open>next.location\<close>
  when \<open>locations[nextIndex]\<close> is \<open>undefined\<close> throws a \<open>TypeError\<close>.
\<close>

definition toggleLocation :: "clientState \<Rightarrow> error + clientState" where
  "toggleLocation prevState =
     (let currentIndex = findIndex (\<lambda>l. locationEntry.location l = userLocation prevState) locations;
          nextIndex = js_rem (currentIndex + 1) (int (length locations))
      in case js_index locations nextIndex of
           None \<Rightarrow> Inl (TypeError ''Cannot read properties of undefined (reading 'location')'')
         | Some next \<Rightarrow>
             Inr (prevState\<lparr>userLocation := locationEntry.location next,
                            currencyCode := locationEntry.currency next\<rparr>))"

text \<open>The updater that \<open>toggleLoginStatus\<close> hands to \<open>setState\<close>.\<close>

definition toggleLoginStatus :: "clientState \<Rightarrow> clientState" where
  "toggleLoginStatus prevState = prevState\<lparr>isLoggedIn := \<not> isLoggedIn prevState\<rparr>"

text \<open>\<open>n\<close> successive state updates; the first exception ends the run.\<close>

fun repeat_update :: "nat \<Rightarrow> ('s \<Rightarrow> error + 's) \<Rightarrow> 's \<Rightarrow> error + 's" where
  "repeat_update 0 f s = Inr s"
| "repeat_update (Suc n) f s = (case f s of Inl e \<Rightarrow> Inl e | Inr s' \<Rightarrow> repeat_update n f s')"

text \<open>
  \<open>UserProvider\<close> initialises the state from its props and provides it (together with
  the two mutation closures above) as the context value.
\<close>

definition UserProvider :: "clientState \<Rightarrow> clientState" where
  "UserProvider props =
     \<lparr>isLoggedIn = isLoggedIn props,
      userLocation = userLocation props,
      currencyCode = currencyCode props\<rparr>"

text \<open>
  \<open>useContext(UserContext)\<close>: the value of the nearest enclosing provider, and the
  default of \<open>createContext(null)\<close> when there is none. The argument lists the values
  provided by the ancestors, nearest first; \<open>None\<close> is \<open>null\<close>.
\<close>

definition useContext :: "clientState list \<Rightarrow> clientState option" where
  "useContext providers = (case providers of [] \<Rightarrow> None | v # _ \<Rightarrow> Some v)"

definition useUserContext :: "clientState list \<Rightarrow> error + clientState" where
  "useUserContext providers =
     (let context = useContext providers
      in case context of
           None \<Rightarrow> Inl (Error ''useUserContext must be used within a UserProvider'')
         | Some c \<Rightarrow> Inr c)"

text \<open>
  The consumers, up to markup: \<open>CurrencyToggle\<close> shows the three fields,
  \<open>FeatureFlags\<close> computes which of its four features are enabled,
  \<open>DataFlowVisualization\<close> shows the whole context value. None of them catches what
  \<open>useUserContext\<close> throws.
\<close>

definition CurrencyToggle :: "clientState list \<Rightarrow> error + (string \<times> string \<times> bool)" where
  "CurrencyToggle providers =
     (case useUserContext providers of
        Inl e \<Rightarrow> Inl e
      | Inr c \<Rightarrow> Inr (userLocation c, currencyCode c, isLoggedIn c))"

definition FeatureFlags :: "clientState list \<Rightarrow> error + (string \<times> bool) list" where
  "FeatureFlags providers =
     (case useUserContext providers of
        Inl e \<Rightarrow> Inl e
      | Inr c \<Rightarrow>
          Inr [(''Premium Dashboard'', isLoggedIn c),
               (''Multi-Currency Support'', currencyCode c \<in> set [''EUR'', ''GBP'', ''JPY'']),
               (''Regional Promotions'', currencyCode c \<noteq> ''USD''),
               (''Guest Checkout'', \<not> isLoggedIn c)])"

definition DataFlowVisualization :: "clientState list \<Rightarrow> error + clientState" where
  "DataFlowVisualization providers =
     (case useUserContext providers of
        Inl e \<Rightarrow> Inl e
      | Inr currentClientState \<Rightarrow> Inr currentClientState)"


section \<open>The server actions and the simulated database\<close>

text \<open>
  A \<open>FormData\<close> is a list of name/value entries; \<open>get\<close> returns the first value of
  the name, or \<open>null\<close>.
\<close>

type_synonym formData = "(string \<times> jsval) list"

definition formData_get :: "formData \<Rightarrow> string \<Rightarrow> jsval" where
  "formData_get formData name = (case map_of formData name of None \<Rightarrow> JNull | Some v \<Rightarrow> v)"

text \<open>
  \<open>FEATURE_FLAGS\<close> is an object literal used as a dictionary: a map of its own
  properties, with \<open>Object.prototype\<close> as its prototype. A property read looks at
  the own properties first and then at the prototype; the members of
  \<open>Object.prototype\<close> are built-in functions, and its accessor \<open>__proto__\<close> returns
  the prototype itself.
\<close>

type_synonym js_object = "string \<rightharpoonup> jsval"

definition Object_prototype :: "(string \<times> jsval) list" where
  "Object_prototype =
     [(''constructor'', JFunction ''Object''),
      (''__defineGetter__'', JFunction ''__defineGetter__''),
      (''__defineSetter__'', JFunction ''__defineSetter__''),
      (''hasOwnProperty'', JFunction ''hasOwnProperty''),
      (''__lookupGetter__'', JFunction ''__lookupGetter__''),
      (''__lookupSetter__'', JFunction ''__lookupSetter__''),
      (''isPrototypeOf'', JFunction ''isPrototypeOf''),
      (''propertyIsEnumerable'', JFunction ''propertyIsEnumerable''),
      (''toString'', JFunction ''toString''),
      (''valueOf'', JFunction ''valueOf''),
      (''__proto__'', JObjectPrototype),
      (''toLocaleString'', JFunction ''toLocaleString'')]"

definition js_get :: "js_object \<Rightarrow> string \<Rightarrow> jsval" where
  "js_get obj key =
     (case obj key of
        Some v \<Rightarrow> v
      | None \<Rightarrow> (case map_of Object_prototype key of Some v \<Rightarrow> v | None \<Rightarrow> JUndefined))"

text \<open>
  The assignment \<open>obj[key] = b\<close> of a boolean: it writes the own property, except
  for \<open>__proto__\<close>, whose inherited setter ignores a value that is neither an
  object nor \<open>null\<close>.
\<close>

definition js_set_boolean :: "js_object \<Rightarrow> string \<Rightarrow> bool \<Rightarrow> js_object" where
  "js_set_boolean obj key b = (if key = ''__proto__'' then obj else obj(key \<mapsto> JBool b))"

text \<open>
  The two objects inside \<open>db\<close>. The object \<open>getServerPreferences\<close> returns has the
  two fields of \<open>USER_PREFERENCES\<close> and \<open>currencyToggleEnabled\<close>.
\<close>

record user_preferences =
  currency :: jsval
  theme :: jsval

record preferences = user_preferences +
  currencyToggleEnabled :: jsval

record db =
  USER_PREFERENCES :: user_preferences
  FEATURE_FLAGS :: js_object

text \<open>
  The server: the global \<open>db\<close> object and the paths handed to \<open>revalidatePath\<close>
  (latest first). Console output and the simulated latencies are not part of the
  state.
\<close>

record server =
  db :: db
  revalidated :: "string list"

definition db_initial :: db where
  "db_initial =
     \<lparr>USER_PREFERENCES = \<lparr>currency = JString ''USD'', theme = JString ''light''\<rparr>,
      FEATURE_FLAGS = [''currencyToggleEnabled'' \<mapsto> JBool True]\<rparr>"

definition server_initial :: server where
  "server_initial = \<lparr>db = db_initial, revalidated = []\<rparr>"

definition revalidatePath :: "string \<Rightarrow> server \<Rightarrow> server" where
  "revalidatePath path s = s\<lparr>revalidated := path # revalidated s\<rparr>"

definition getServerPreferences :: "server \<Rightarrow> error + preferences" where
  "getServerPreferences s =
     Inr \<lparr>currency = user_preferences.currency (USER_PREFERENCES (db s)),
          theme = theme (USER_PREFERENCES (db s)),
          currencyToggleEnabled = js_get (FEATURE_FLAGS (db s)) ''currencyToggleEnabled''\<rparr>"

definition updateUserCurrency :: "formData \<Rightarrow> server \<Rightarrow> error + server" where
  "updateUserCurrency formData s =
     (let newCurrency = formData_get formData ''currency'';
          s1 = s\<lparr>db := (db s)\<lparr>USER_PREFERENCES :=
                   (USER_PREFERENCES (db s))\<lparr>currency := newCurrency\<rparr>\<rparr>\<rparr>
      in Inr (revalidatePath ''/server-actions-demo'' s1))"

definition toggleFeatureFlag :: "formData \<Rightarrow> server \<Rightarrow> error + server" where
  "toggleFeatureFlag formData s =
     (let flagName = formData_get formData ''flagName'';
          key = ToPropertyKey flagName;
          s1 = s\<lparr>db := (db s)\<lparr>FEATURE_FLAGS :=
                   js_set_boolean (FEATURE_FLAGS (db s)) key
                     (\<not> ToBoolean (js_get (FEATURE_FLAGS (db s)) key))\<rparr>\<rparr>
      in Inr (revalidatePath ''/server-actions-demo'' s1))"

text \<open>
  An awaited call followed by the rest of the caller: a rejection ends the caller.
\<close>

definition await :: "error + 'a \<Rightarrow> ('a \<Rightarrow> error + 'b) \<Rightarrow> error + 'b" where
  "await p k = (case p of Inl e \<Rightarrow> Inl e | Inr v \<Rightarrow> k v)"

text \<open>The value a property read \<open>db.FEATURE_FLAGS[name]\<close> gives once an action has settled.\<close>

definition flag_of :: "error + server \<Rightarrow> string \<Rightarrow> error + jsval" where
  "flag_of r name =
     (case r of Inl e \<Rightarrow> Inl e | Inr s \<Rightarrow> Inr (js_get (FEATURE_FLAGS (db s)) name))"


section \<open>Array search and index arithmetic\<close>

lemma findIndex_from_range:
  "findIndex_from p xs i = - 1 \<or>
   (i \<le> findIndex_from p xs i \<and> findIndex_from p xs i < i + int (length xs))"
proof (induction xs arbitrary: i)
  case Nil
  show ?case by simp
next
  case (Cons x xs)
  from Cons.IH [of "i + 1"] show ?case by auto
qed

lemma js_rem_range:
  assumes "0 \<le> a" and "0 < b"
  shows "0 \<le> js_rem a b \<and> js_rem a b < b"
  using assms by (simp add: js_rem_def sgn_if)

text \<open>
  The index computed from a \<open>findIndex\<close> result, \<open>(i + 1) % length\<close>, always lies
  inside a non-empty array: the read never yields \<open>undefined\<close>.
\<close>

lemma nextIndex_in_range:
  assumes "xs \<noteq> []"
  shows "\<exists>x. js_index xs (js_rem (findIndex p xs + 1) (int (length xs))) = Some x"
proof -
  have "0 \<le> findIndex p xs + 1"
    using findIndex_from_range [of p xs 0] by (auto simp: findIndex_def)
  moreover have "0 < int (length xs)"
    using assms by simp
  ultimately have "0 \<le> js_rem (findIndex p xs + 1) (int (length xs))
      \<and> js_rem (findIndex p xs + 1) (int (length xs)) < int (length xs)"
    by (rule js_rem_range)
  then show ?thesis
    by (simp add: js_index_def)
qed

lemma repeat_update_5:
  "repeat_update 5 f s =
     await (f s) (\<lambda>s1. await (f s1) (\<lambda>s2. await (f s2) (\<lambda>s3. await (f s3) f)))"
  by (simp add: eval_nat_numeral await_def split: sum.splits)


section \<open>The client state container\<close>

text \<open>\<open>toggleLocation\<close> never throws: its array read is always in range.\<close>

lemma toggleLocation_never_throws: "\<exists>s'. toggleLocation s = Inr s'"
proof -
  have "locations \<noteq> []"
    by (simp add: locations_def)
  from nextIndex_in_range [OF this, of "\<lambda>l. locationEntry.location l = userLocation s"]
  obtain x where "js_index locations
      (js_rem (findIndex (\<lambda>l. locationEntry.location l = userLocation s) locations + 1)
         (int (length locations))) = Some x"
    by blast
  then show ?thesis
    by (simp add: toggleLocation_def)
qed

lemma toggleLocation_steps:
  "userLocation s = ''US'' \<Longrightarrow>
     toggleLocation s = Inr (s\<lparr>userLocation := ''CA'', currencyCode := ''CAD''\<rparr>)"
  "userLocation s = ''CA'' \<Longrightarrow>
     toggleLocation s = Inr (s\<lparr>userLocation := ''EU'', currencyCode := ''EUR''\<rparr>)"
  "userLocation s = ''EU'' \<Longrightarrow>
     toggleLocation s = Inr (s\<lparr>userLocation := ''UK'', currencyCode := ''GBP''\<rparr>)"
  "userLocation s = ''UK'' \<Longrightarrow>
     toggleLocation s = Inr (s\<lparr>userLocation := ''JP'', currencyCode := ''JPY''\<rparr>)"
  "userLocation s = ''JP'' \<Longrightarrow>
     toggleLocation s = Inr (s\<lparr>userLocation := ''US'', currencyCode := ''USD''\<rparr>)"
  by (simp_all add: toggleLocation_def locations_def findIndex_def js_rem_def js_index_def)

lemma toggleLocation_at:
  "toggleLocation (s\<lparr>userLocation := ''US'', currencyCode := c\<rparr>) =
     Inr (s\<lparr>userLocation := ''CA'', currencyCode := ''CAD''\<rparr>)"
  "toggleLocation (s\<lparr>userLocation := ''CA'', currencyCode := c\<rparr>) =
     Inr (s\<lparr>userLocation := ''EU'', currencyCode := ''EUR''\<rparr>)"
  "toggleLocation (s\<lparr>userLocation := ''EU'', currencyCode := c\<rparr>) =
     Inr (s\<lparr>userLocation := ''UK'', currencyCode := ''GBP''\<rparr>)"
  "toggleLocation (s\<lparr>userLocation := ''UK'', currencyCode := c\<rparr>) =
     Inr (s\<lparr>userLocation := ''JP'', currencyCode := ''JPY''\<rparr>)"
  "toggleLocation (s\<lparr>userLocation := ''JP'', currencyCode := c\<rparr>) =
     Inr (s\<lparr>userLocation := ''US'', currencyCode := ''USD''\<rparr>)"
  by (simp_all add: toggleLocation_steps)

lemma toggleLocation_fallback:
  assumes "userLocation s \<noteq> ''US''" "userLocation s \<noteq> ''CA''" "userLocation s \<noteq> ''EU''"
    "userLocation s \<noteq> ''UK''" "userLocation s \<noteq> ''JP''"
  shows "findIndex (\<lambda>l. locationEntry.location l = userLocation s) locations = - 1"
    and "toggleLocation s = Inr (s\<lparr>userLocation := ''US'', currencyCode := ''USD''\<rparr>)"
proof -
  have neq: "''US'' \<noteq> userLocation s" "''CA'' \<noteq> userLocation s" "''EU'' \<noteq> userLocation s"
    "''UK'' \<noteq> userLocation s" "''JP'' \<noteq> userLocation s"
    using assms by (simp_all only: not_sym [OF assms(1)] not_sym [OF assms(2)]
        not_sym [OF assms(3)] not_sym [OF assms(4)] not_sym [OF assms(5)] not_False_eq_True)
  show idx: "findIndex (\<lambda>l. locationEntry.location l = userLocation s) locations = - 1"
    using neq by (simp add: locations_def findIndex_def)
  show "toggleLocation s = Inr (s\<lparr>userLocation := ''US'', currencyCode := ''USD''\<rparr>)"
    unfolding toggleLocation_def Let_def idx
    by (simp add: locations_def js_rem_def js_index_def)
qed

lemma toggleLocation_round:
  assumes "userLocation s = l" and "currencyCode s = c"
    and "(l, c) \<in> {(''US'', ''USD''), (''CA'', ''CAD''), (''EU'', ''EUR''),
                    (''UK'', ''GBP''), (''JP'', ''JPY'')}"
  shows "repeat_update 5 toggleLocation s = Inr s"
proof -
  have same: "s\<lparr>userLocation := l, currencyCode := c\<rparr> = s"
    using assms(1,2) by (cases s) simp
  have "repeat_update 5 toggleLocation (s\<lparr>userLocation := l, currencyCode := c\<rparr>)
          = Inr (s\<lparr>userLocation := l, currencyCode := c\<rparr>)"
    using assms(3) unfolding repeat_update_5
    by (auto simp add: await_def toggleLocation_at)
  then show ?thesis
    by (simp only: same)
qed

text \<open>
  C3. From a state whose location is one of US, CA, EU, UK, JP and whose currency is
  the matching one, five applications of the \<open>toggleLocation\<close> updater give the
  state back, and one application moves to the next entry of the cycle
  (US,USD), (CA,CAD), (EU,EUR), (UK,GBP), (JP,JPY), (US,USD).
\<close>

theorem toggleLocation_cycle:
  assumes "(userLocation s, currencyCode s) \<in>
             {(''US'', ''USD''), (''CA'', ''CAD''), (''EU'', ''EUR''),
              (''UK'', ''GBP''), (''JP'', ''JPY'')}"
  shows "repeat_update 5 toggleLocation s = Inr s
    \<and> (userLocation s = ''US'' \<longrightarrow>
         toggleLocation s = Inr (s\<lparr>userLocation := ''CA'', currencyCode := ''CAD''\<rparr>))
    \<and> (userLocation s = ''CA'' \<longrightarrow>
         toggleLocation s = Inr (s\<lparr>userLocation := ''EU'', currencyCode := ''EUR''\<rparr>))
    \<and> (userLocation s = ''EU'' \<longrightarrow>
         toggleLocation s = Inr (s\<lparr>userLocation := ''UK'', currencyCode := ''GBP''\<rparr>))
    \<and> (userLocation s = ''UK'' \<longrightarrow>
         toggleLocation s = Inr (s\<lparr>userLocation := ''JP'', currencyCode := ''JPY''\<rparr>))
    \<and> (userLocation s = ''JP'' \<longrightarrow>
         toggleLocation s = Inr (s\<lparr>userLocation := ''US'', currencyCode := ''USD''\<rparr>))"
proof -
  have "repeat_update 5 toggleLocation s = Inr s"
    using assms by (rule toggleLocation_round [OF refl refl])
  then show ?thesis
    by (simp add: toggleLocation_steps)
qed

theorem toggleLocation_cycle_witness:
  "(''UK'', ''GBP'') \<in> {(''US'', ''USD''), (''CA'', ''CAD''), (''EU'', ''EUR''),
                         (''UK'', ''GBP''), (''JP'', ''JPY'')}
   \<and> repeat_update 5 toggleLocation
         \<lparr>isLoggedIn = False, userLocation = ''UK'', currencyCode = ''GBP''\<rparr>
       = Inr \<lparr>isLoggedIn = False, userLocation = ''UK'', currencyCode = ''GBP''\<rparr>
   \<and> toggleLocation \<lparr>isLoggedIn = False, userLocation = ''UK'', currencyCode = ''GBP''\<rparr>
       = Inr \<lparr>isLoggedIn = False, userLocation = ''JP'', currencyCode = ''JPY''\<rparr>"
  using toggleLocation_cycle
    [of "\<lparr>isLoggedIn = False, userLocation = ''UK'', currencyCode = ''GBP''\<rparr>"]
  by simp

text \<open>
  C7. When the location of the state is none of the five cycle entries, \<open>findIndex\<close>
  returns \<open>-1\<close>, \<open>(-1 + 1) % 5\<close> is \<open>0\<close>, and one application of the
  \<open>toggleLocation\<close> updater sets the location to US and the currency to USD.
\<close>

theorem toggleLocation_unmatched:
  assumes "userLocation s \<notin> {''US'', ''CA'', ''EU'', ''UK'', ''JP''}"
  shows "findIndex (\<lambda>l. locationEntry.location l = userLocation s) locations = - 1
    \<and> js_rem (- 1 + 1) (int (length locations)) = 0
    \<and> toggleLocation s = Inr (s\<lparr>userLocation := ''US'', currencyCode := ''USD''\<rparr>)"
proof -
  from assms have neq: "userLocation s \<noteq> ''US''" "userLocation s \<noteq> ''CA''"
    "userLocation s \<noteq> ''EU''" "userLocation s \<noteq> ''UK''" "userLocation s \<noteq> ''JP''"
    by simp_all
  have "js_rem (- 1 + 1) (int (length locations)) = 0"
    by (simp add: js_rem_def)
  with toggleLocation_fallback [OF neq] show ?thesis
    by simp
qed

theorem toggleLocation_unmatched_witness:
  "''FR'' \<notin> {''US'', ''CA'', ''EU'', ''UK'', ''JP''}
   \<and> toggleLocation \<lparr>isLoggedIn = True, userLocation = ''FR'', currencyCode = ''EUR''\<rparr>
       = Inr \<lparr>isLoggedIn = True, userLocation = ''US'', currencyCode = ''USD''\<rparr>"
  using toggleLocation_unmatched
    [of "\<lparr>isLoggedIn = True, userLocation = ''FR'', currencyCode = ''EUR''\<rparr>"]
  by simp

text \<open>
  C5. The \<open>toggleLoginStatus\<close> updater negates \<open>isLoggedIn\<close> and leaves the currency
  and the location as they are; applied twice it gives the state back.
\<close>

theorem toggleLoginStatus_involution_frame:
  "isLoggedIn (toggleLoginStatus s) = (\<not> isLoggedIn s)
   \<and> currencyCode (toggleLoginStatus s) = currencyCode s
   \<and> userLocation (toggleLoginStatus s) = userLocation s
   \<and> isLoggedIn (toggleLoginStatus (toggleLoginStatus s)) = isLoggedIn s
   \<and> toggleLoginStatus (toggleLoginStatus s) = s"
  by (simp add: toggleLoginStatus_def)

text \<open>
  C9. A read of the container with no enclosing \<open>UserProvider\<close> finds the default
  \<open>null\<close> and throws the error of \<open>useUserContext\<close>; the consumers do not catch it,
  so it reaches their caller, and no default value is returned.
\<close>

theorem useUserContext_without_provider:
  "useUserContext [] = Inl (Error ''useUserContext must be used within a UserProvider'')
   \<and> CurrencyToggle [] = Inl (Error ''useUserContext must be used within a UserProvider'')
   \<and> FeatureFlags [] = Inl (Error ''useUserContext must be used within a UserProvider'')
   \<and> DataFlowVisualization []
       = Inl (Error ''useUserContext must be used within a UserProvider'')"
  by (simp add: useUserContext_def useContext_def CurrencyToggle_def FeatureFlags_def
      DataFlowVisualization_def)

text \<open>With a provider the read returns the value of the nearest one.\<close>

lemma useUserContext_with_provider: "useUserContext (c # cs) = Inr c"
  by (simp add: useUserContext_def useContext_def)


section \<open>The derivation of the initial state\<close>

text \<open>
  C2. For a boolean auth token and any geo code the page computes exactly the
  reference derivation: \<open>isLoggedIn\<close> is the token, \<open>currencyCode\<close> is CAD for the
  geo code CA and USD otherwise, \<open>userLocation\<close> is the geo code. The function is
  total and has no error result.
\<close>

theorem GlobalConfigurationPage_deriveConfig:
  "GlobalConfigurationPage (JBool authToken) geoCountryCode
     = deriveConfig_spec authToken geoCountryCode
   \<and> isLoggedIn (GlobalConfigurationPage (JBool authToken) geoCountryCode) = authToken
   \<and> currencyCode (GlobalConfigurationPage (JBool authToken) geoCountryCode) =
       (if geoCountryCode = ''CA'' then ''CAD'' else ''USD'')
   \<and> userLocation (GlobalConfigurationPage (JBool authToken) geoCountryCode) = geoCountryCode"
  by (simp add: GlobalConfigurationPage_def deriveConfig_spec_def)

text \<open>The page as it is rendered, with its two simulated request values.\<close>

lemma GlobalConfigurationPage_render:
  "GlobalConfigurationPage AUTH_TOKEN GEO_COUNTRY_CODE
     = \<lparr>isLoggedIn = True, userLocation = ''CA'', currencyCode = ''CAD''\<rparr>"
  by (simp add: GlobalConfigurationPage_def AUTH_TOKEN_def GEO_COUNTRY_CODE_def)

lemma CurrencyToggle_render:
  "CurrencyToggle [UserProvider (GlobalConfigurationPage AUTH_TOKEN GEO_COUNTRY_CODE)]
     = Inr (''CA'', ''CAD'', True)"
  by (simp add: GlobalConfigurationPage_render CurrencyToggle_def useUserContext_def
      useContext_def UserProvider_def)

text \<open>
  C6, as the specification states it, fails: for the geo code FR, which is not CA and
  not one of the enumerated locations, the currency is USD but the location is FR,
  not US.
\<close>

theorem GlobalConfigurationPage_fallback_counterexample:
  "''FR'' \<noteq> ''CA''
   \<and> ''FR'' \<notin> set (map locationEntry.location locations)
   \<and> currencyCode (GlobalConfigurationPage AUTH_TOKEN ''FR'') = ''USD''
   \<and> userLocation (GlobalConfigurationPage AUTH_TOKEN ''FR'') = ''FR''
   \<and> userLocation (GlobalConfigurationPage AUTH_TOKEN ''FR'') \<noteq> ''US''"
  by (simp add: GlobalConfigurationPage_def locations_def)

text \<open>
  C6, amended. For every geo code other than CA (in particular every code outside
  the recognised mapping) the currency falls back to USD, and the location is the
  geo code itself, passed through unchanged.
\<close>

theorem GlobalConfigurationPage_unrecognized_geo:
  assumes "geoCountryCode \<noteq> ''CA''"
  shows "currencyCode (GlobalConfigurationPage authToken geoCountryCode) = ''USD''
    \<and> userLocation (GlobalConfigurationPage authToken geoCountryCode) = geoCountryCode"
  using assms by (simp add: GlobalConfigurationPage_def)

theorem GlobalConfigurationPage_unrecognized_geo_witness:
  "''FR'' \<noteq> ''CA''
   \<and> currencyCode (GlobalConfigurationPage (JBool False) ''FR'') = ''USD''
   \<and> userLocation (GlobalConfigurationPage (JBool False) ''FR'') = ''FR''"
  using GlobalConfigurationPage_unrecognized_geo [of "''FR''" "JBool False"]
  by simp


section \<open>The preferences store\<close>

text \<open>Both actions settle fulfilled and hand their path to \<open>revalidatePath\<close>.\<close>

lemma updateUserCurrency_revalidates:
  "\<exists>s'. updateUserCurrency formData s = Inr s'
     \<and> revalidated s' = ''/server-actions-demo'' # revalidated s"
  by (simp add: updateUserCurrency_def revalidatePath_def)

lemma toggleFeatureFlag_revalidates:
  "\<exists>s'. toggleFeatureFlag formData s = Inr s'
     \<and> revalidated s' = ''/server-actions-demo'' # revalidated s"
  by (simp add: toggleFeatureFlag_def Let_def revalidatePath_def)

text \<open>
  C1. When \<open>updateUserCurrency\<close> is called with a form whose \<open>currency\<close> field is the
  string \<open>c\<close>, it settles fulfilled, and \<open>getServerPreferences\<close> called on the store
  it leaves returns a record whose \<open>currency\<close> is \<open>c\<close>. (One operation is in flight
  at a time: nothing else writes the store between the two calls.)
\<close>

theorem updateUserCurrency_no_stale_read:
  assumes "formData_get formData ''currency'' = JString c"
  shows "\<exists>s' p. updateUserCurrency formData s = Inr s'
           \<and> getServerPreferences s' = Inr p
           \<and> user_preferences.currency p = JString c"
  using assms
  by (simp add: updateUserCurrency_def getServerPreferences_def revalidatePath_def)

theorem updateUserCurrency_no_stale_read_witness:
  "formData_get [(''currency'', JString ''EUR'')] ''currency'' = JString ''EUR''
   \<and> (\<exists>s' p. updateUserCurrency [(''currency'', JString ''EUR'')] server_initial = Inr s'
           \<and> getServerPreferences s' = Inr p
           \<and> user_preferences.currency p = JString ''EUR'')"
proof -
  have h: "formData_get [(''currency'', JString ''EUR'')] ''currency'' = JString ''EUR''"
    by (simp add: formData_get_def)
  from updateUserCurrency_no_stale_read [OF h, of server_initial] h show ?thesis
    by simp
qed

text \<open>
  C8. For every string \<open>c\<close>, in the currency enumeration or not,
  \<open>updateUserCurrency\<close> called with the \<open>currency\<close> field \<open>c\<close> settles fulfilled (it
  raises no validation error) and the \<open>currency\<close> field of the store is \<open>c\<close>
  afterwards, whatever it was before.
\<close>

theorem updateUserCurrency_accepts_anything:
  assumes "formData_get formData ''currency'' = JString c"
  shows "\<exists>s'. updateUserCurrency formData s = Inr s'
           \<and> user_preferences.currency (USER_PREFERENCES (db s')) = JString c"
  using assms
  by (simp add: updateUserCurrency_def revalidatePath_def)

theorem updateUserCurrency_accepts_anything_witness:
  "formData_get [(''currency'', JString ''not a currency'')] ''currency''
     = JString ''not a currency''
   \<and> ''not a currency'' \<notin> set (map locationEntry.currency locations)
   \<and> (\<exists>s'. updateUserCurrency [(''currency'', JString ''not a currency'')] server_initial
             = Inr s'
           \<and> user_preferences.currency (USER_PREFERENCES (db s')) = JString ''not a currency'')"
proof -
  have h: "formData_get [(''currency'', JString ''not a currency'')] ''currency''
             = JString ''not a currency''"
    by (simp add: formData_get_def)
  from updateUserCurrency_accepts_anything [OF h, of server_initial] h show ?thesis
    by (simp add: locations_def)
qed

text \<open>
  C10. \<open>updateUserCurrency\<close> changes the \<open>currency\<close> field of \<open>USER_PREFERENCES\<close>
  and nothing else in \<open>db\<close>: the theme and the whole of \<open>FEATURE_FLAGS\<close>, so also
  what a read of \<open>currencyToggleEnabled\<close> gives, are as before.
\<close>

theorem updateUserCurrency_frame:
  "\<exists>s'. updateUserCurrency formData s = Inr s'
     \<and> db s' = (db s)\<lparr>USER_PREFERENCES :=
                 (USER_PREFERENCES (db s))\<lparr>currency := formData_get formData ''currency''\<rparr>\<rparr>
     \<and> theme (USER_PREFERENCES (db s')) = theme (USER_PREFERENCES (db s))
     \<and> FEATURE_FLAGS (db s') = FEATURE_FLAGS (db s)
     \<and> js_get (FEATURE_FLAGS (db s')) ''currencyToggleEnabled''
         = js_get (FEATURE_FLAGS (db s)) ''currencyToggleEnabled''"
  by (simp add: updateUserCurrency_def revalidatePath_def)


section \<open>Feature flags\<close>

text \<open>
  A flag whose own value is a boolean is negated by \<open>toggleFeatureFlag\<close>.
\<close>

lemma toggleFeatureFlag_flips:
  assumes "formData_get formData ''flagName'' = JString f"
    and "FEATURE_FLAGS (db s) f = Some (JBool b)"
    and "f \<noteq> ''__proto__''"
  shows "flag_of (toggleFeatureFlag formData s) f = Inr (JBool (\<not> b))"
  using assms
  by (simp add: flag_of_def toggleFeatureFlag_def Let_def js_get_def js_set_boolean_def
      revalidatePath_def)

text \<open>
  A flag that is not an own property of the flag object, and whose name is not a
  member of \<open>Object.prototype\<close>, reads as \<open>undefined\<close>: the first toggle creates it
  as \<open>true\<close>, the second makes it \<open>false\<close>.
\<close>

lemma toggleFeatureFlag_absent:
  assumes "formData_get formData ''flagName'' = JString f"
    and "FEATURE_FLAGS (db s) f = None"
    and "map_of Object_prototype f = None"
  shows "flag_of (toggleFeatureFlag formData s) f = Inr (JBool True)
    \<and> flag_of (await (toggleFeatureFlag formData s) (toggleFeatureFlag formData)) f
        = Inr (JBool False)"
proof -
  have "f \<noteq> ''__proto__''"
    using assms(3) by (auto simp: Object_prototype_def)
  with assms show ?thesis
    by (simp add: flag_of_def await_def toggleFeatureFlag_def Let_def js_get_def
        js_set_boolean_def revalidatePath_def)
qed

lemma toggleFeatureFlag_unset_x:
  "flag_of (toggleFeatureFlag [(''flagName'', JString ''x'')] server_initial) ''x''
     = Inr (JBool True)
   \<and> flag_of (await (toggleFeatureFlag [(''flagName'', JString ''x'')] server_initial)
                (toggleFeatureFlag [(''flagName'', JString ''x'')])) ''x''
       = Inr (JBool False)"
proof -
  have "formData_get [(''flagName'', JString ''x'')] ''flagName'' = JString ''x''"
    by (simp add: formData_get_def)
  moreover have "FEATURE_FLAGS (db server_initial) ''x'' = None"
    by (simp add: server_initial_def db_initial_def)
  moreover have "map_of Object_prototype ''x'' = None"
    by (simp add: Object_prototype_def)
  ultimately show ?thesis
    by (rule toggleFeatureFlag_absent)
qed

text \<open>The one flag the form of the page submits.\<close>

lemma toggleFeatureFlag_currencyToggleEnabled:
  "flag_of (toggleFeatureFlag [(''flagName'', JString ''currencyToggleEnabled'')] server_initial)
     ''currencyToggleEnabled'' = Inr (JBool False)"
  by (simp add: flag_of_def toggleFeatureFlag_def Let_def formData_get_def js_get_def
      js_set_boolean_def revalidatePath_def server_initial_def db_initial_def)

text \<open>
  The name \<open>__proto__\<close> is never toggled: the read gives the prototype, the write of
  \<open>false\<close> is ignored by the inherited setter, and \<open>db\<close> is left as it was.
\<close>

lemma toggleFeatureFlag_proto:
  "flag_of (toggleFeatureFlag [(''flagName'', JString ''__proto__'')] server_initial) ''__proto__''
     = Inr JObjectPrototype
   \<and> (\<exists>s'. toggleFeatureFlag [(''flagName'', JString ''__proto__'')] server_initial = Inr s'
         \<and> db s' = db server_initial)"
  by (simp add: flag_of_def toggleFeatureFlag_def Let_def formData_get_def js_get_def
      js_set_boolean_def Object_prototype_def revalidatePath_def server_initial_def
      db_initial_def)

text \<open>
  C4 says that toggling a flag absent from the flag set yields \<open>true\<close>, and toggling
  it again yields \<open>false\<close>. The code does otherwise for the flag name \<open>toString\<close>: it is
  absent from the initial flag set, yet the read finds the function inherited from
  \<open>Object.prototype\<close>, which is truthy, so the first toggle stores \<open>false\<close> and the
  second stores \<open>true\<close>.
\<close>

theorem toggleFeatureFlag_toString:
  "FEATURE_FLAGS (db server_initial) ''toString'' = None
   \<and> flag_of (toggleFeatureFlag [(''flagName'', JString ''toString'')] server_initial)
        ''toString''
       = Inr (JBool False)
   \<and> flag_of (await (toggleFeatureFlag [(''flagName'', JString ''toString'')] server_initial)
                (toggleFeatureFlag [(''flagName'', JString ''toString'')])) ''toString''
       = Inr (JBool True)"
  by (simp add: flag_of_def await_def toggleFeatureFlag_def Let_def formData_get_def js_get_def
      js_set_boolean_def Object_prototype_def revalidatePath_def server_initial_def
      db_initial_def)

end
